theory Spec2Isabelle
  imports Complex_Main
begin

section \<open>JavaScript values and coercions used by the handlers\<close>

text \<open>
  The handlers of \<^verbatim>\<open>routes/api/spots.js\<close> lean on JavaScript's coercions:
  \<^verbatim>\<open>parseInt(page) || 1\<close>, \<^verbatim>\<open>isNaN(minLat)\<close>, \<^verbatim>\<open>minLat < -90\<close> on a
  query string, \<^verbatim>\<open>!address\<close>, \<^verbatim>\<open>price <= 0\<close> on a JSON value. They are
  written out here. A number is \<open>NaN\<close>, an infinity or a finite value; finite values
  are exact rationals, where the runtime rounds to a binary64, so a decimal text within
  rounding distance of a bound compares as written here and not as rounded. Negative zero
  is zero. A string is a list of characters, and white space is the ASCII white space.
\<close>

datatype jsnum = NaN | NInf | Fin rat | PInf

text \<open>\<^verbatim>\<open>a < b\<close> on numbers: false as soon as one side is \<open>NaN\<close>.\<close>

fun num_lt :: "jsnum \<Rightarrow> jsnum \<Rightarrow> bool" where
  "num_lt NaN b = False"
| "num_lt a NaN = False"
| "num_lt PInf b = False"
| "num_lt a NInf = False"
| "num_lt NInf b = True"
| "num_lt a PInf = True"
| "num_lt (Fin x) (Fin y) = (x < y)"

text \<open>\<^verbatim>\<open>a <= b\<close> on numbers: \<^verbatim>\<open>b < a\<close> is false and neither side is \<open>NaN\<close>.\<close>

fun num_le :: "jsnum \<Rightarrow> jsnum \<Rightarrow> bool" where
  "num_le NaN b = False"
| "num_le a NaN = False"
| "num_le a b = (\<not> num_lt b a)"

fun num_neg :: "jsnum \<Rightarrow> jsnum" where
  "num_neg NaN = NaN"
| "num_neg NInf = PInf"
| "num_neg PInf = NInf"
| "num_neg (Fin x) = Fin (- x)"

text \<open>Truthiness of a number: \<open>NaN\<close> and zero are falsy.\<close>

fun num_truthy :: "jsnum \<Rightarrow> bool" where
  "num_truthy NaN = False"
| "num_truthy (Fin x) = (x \<noteq> 0)"
| "num_truthy n = True"

text \<open>\<^verbatim>\<open>a || b\<close> on numbers.\<close>

definition num_or :: "jsnum \<Rightarrow> jsnum \<Rightarrow> jsnum" where
  "num_or a b = (if num_truthy a then a else b)"

subsection \<open>Reading numbers from strings\<close>

definition is_ws :: "char \<Rightarrow> bool" where
  "is_ws c = (c = CHR 0x09 \<or> c = CHR 0x0A \<or> c = CHR 0x0B \<or> c = CHR 0x0C \<or> c = CHR 0x0D
      \<or> c = CHR '' '')"

text \<open>The value of a character as a digit of some radix up to 36.\<close>

definition digit_val :: "char \<Rightarrow> nat option" where
  "digit_val c = (let n = (of_char c :: nat) in
     if 48 \<le> n \<and> n \<le> 57 then Some (n - 48)
     else if 97 \<le> n \<and> n \<le> 122 then Some (n - 87)
     else if 65 \<le> n \<and> n \<le> 90 then Some (n - 55)
     else None)"

definition digit_in :: "nat \<Rightarrow> char \<Rightarrow> bool" where
  "digit_in radix c = (case digit_val c of Some d \<Rightarrow> d < radix | None \<Rightarrow> False)"

definition digit_num :: "char \<Rightarrow> nat" where
  "digit_num c = (case digit_val c of Some d \<Rightarrow> d | None \<Rightarrow> 0)"

fun digits_val :: "nat \<Rightarrow> nat \<Rightarrow> string \<Rightarrow> nat" where
  "digits_val radix acc [] = acc"
| "digits_val radix acc (c # cs) = digits_val radix (acc * radix + digit_num c) cs"

text \<open>An optional sign in front: whether it is a minus, and the rest.\<close>

fun take_sign :: "string \<Rightarrow> bool \<times> string" where
  "take_sign [] = (False, [])"
| "take_sign (c # cs) =
     (if c = CHR ''-'' then (True, cs)
      else if c = CHR ''+'' then (False, cs)
      else (False, c # cs))"

text \<open>
  \<^verbatim>\<open>parseInt(s)\<close> with no radix: leading white space is skipped, a sign is read, a
  \<^verbatim>\<open>0x\<close> prefix selects radix 16, and the longest run of digits is the value; no digit
  at all gives \<open>NaN\<close>.
\<close>

fun take_hex_prefix :: "string \<Rightarrow> nat \<times> string" where
  "take_hex_prefix (a # b # cs) =
     (if a = CHR ''0'' \<and> (b = CHR ''x'' \<or> b = CHR ''X'') then (16, cs) else (10, a # b # cs))"
| "take_hex_prefix s = (10, s)"

definition parseInt_str :: "string \<Rightarrow> jsnum" where
  "parseInt_str s =
     (let (neg, u) = take_sign (dropWhile is_ws s);
          (radix, v) = take_hex_prefix u;
          ds = takeWhile (digit_in radix) v
      in if ds = [] then NaN
         else if neg then Fin (- of_nat (digits_val radix 0 ds))
         else Fin (of_nat (digits_val radix 0 ds)))"

text \<open>
  A query parameter is absent (\<^verbatim>\<open>undefined\<close>) or a string. \<^verbatim>\<open>parseInt\<close> and
  \<^verbatim>\<open>parseFloat\<close> first turn their argument into a string, and \<^verbatim>\<open>undefined\<close>
  becomes the text \<^verbatim>\<open>undefined\<close>.
\<close>

definition toString_param :: "string option \<Rightarrow> string" where
  "toString_param p = (case p of None \<Rightarrow> ''undefined'' | Some s \<Rightarrow> s)"

definition parseInt :: "string option \<Rightarrow> jsnum" where
  "parseInt p = parseInt_str (toString_param p)"

text \<open>
  The exponent part of a decimal literal, \<^verbatim>\<open>e\<close> or \<^verbatim>\<open>E\<close>, an optional sign and at
  least one digit: its value and the rest. An incomplete exponent part is not read.
\<close>

definition scan_exponent :: "string \<Rightarrow> int \<times> string" where
  "scan_exponent s =
     (case s of
        [] \<Rightarrow> (0, [])
      | c # cs \<Rightarrow>
          if c = CHR ''e'' \<or> c = CHR ''E'' then
            (let (neg, u) = take_sign cs; ds = takeWhile (digit_in 10) u
             in if ds = [] then (0, s)
                else ((if neg then - int (digits_val 10 0 ds) else int (digits_val 10 0 ds)),
                      dropWhile (digit_in 10) u))
          else (0, s))"

definition pow10 :: "int \<Rightarrow> rat" where
  "pow10 e = (if 0 \<le> e then 10 ^ nat e else 1 / 10 ^ nat (- e))"

text \<open>
  The longest prefix that is an unsigned decimal literal (\<^verbatim>\<open>Infinity\<close>, digits with
  an optional fraction and exponent, or a fraction starting with the point), with the
  rest of the string; \<open>None\<close> when there is no such prefix.
\<close>

definition scan_unsigned :: "string \<Rightarrow> (jsnum \<times> string) option" where
  "scan_unsigned s =
     (if take 8 s = ''Infinity'' then Some (PInf, drop 8 s)
      else
        (let ip = takeWhile (digit_in 10) s;
             r1 = dropWhile (digit_in 10) s;
             (fp, r2) = (case r1 of
                           [] \<Rightarrow> ([], [])
                         | c # cs \<Rightarrow>
                             if c = CHR ''.''
                             then (takeWhile (digit_in 10) cs, dropWhile (digit_in 10) cs)
                             else ([], r1))
         in if ip = [] \<and> fp = [] then None
            else (let (e, r3) = scan_exponent r2
                  in Some (Fin (of_nat (digits_val 10 0 (ip @ fp)) * pow10 (e - int (length fp))),
                           r3))))"

definition scan_signed :: "string \<Rightarrow> (jsnum \<times> string) option" where
  "scan_signed s =
     (let (neg, u) = take_sign s
      in case scan_unsigned u of
           None \<Rightarrow> None
         | Some (v, r) \<Rightarrow> Some ((if neg then num_neg v else v), r))"

text \<open>\<^verbatim>\<open>parseFloat(s)\<close>: the longest decimal prefix after leading white space.\<close>

definition parseFloat_str :: "string \<Rightarrow> jsnum" where
  "parseFloat_str s =
     (case scan_signed (dropWhile is_ws s) of None \<Rightarrow> NaN | Some (v, r) \<Rightarrow> v)"

definition parseFloat :: "string option \<Rightarrow> jsnum" where
  "parseFloat p = parseFloat_str (toString_param p)"

text \<open>
  The number a string converts to (\<^verbatim>\<open>Number(s)\<close>, as \<^verbatim>\<open>isNaN\<close> and \<^verbatim>\<open><\<close>
  apply it): the string is trimmed; the empty string is 0; an unsigned literal with prefix
  \<^verbatim>\<open>0x\<close>, \<^verbatim>\<open>0o\<close> or \<^verbatim>\<open>0b\<close> is read in its radix; anything else must be a
  signed decimal literal in full, or the result is \<open>NaN\<close>.
\<close>

definition trim :: "string \<Rightarrow> string" where
  "trim s = rev (dropWhile is_ws (rev (dropWhile is_ws s)))"

fun radix_prefix :: "string \<Rightarrow> (nat \<times> string) option" where
  "radix_prefix (a # b # cs) =
     (if a \<noteq> CHR ''0'' then None
      else if b = CHR ''x'' \<or> b = CHR ''X'' then Some (16, cs)
      else if b = CHR ''o'' \<or> b = CHR ''O'' then Some (8, cs)
      else if b = CHR ''b'' \<or> b = CHR ''B'' then Some (2, cs)
      else None)"
| "radix_prefix s = None"

definition toNumber_str :: "string \<Rightarrow> jsnum" where
  "toNumber_str s =
     (let t = trim s
      in if t = [] then Fin 0
         else case radix_prefix t of
                Some (radix, ds) \<Rightarrow>
                  if ds \<noteq> [] \<and> list_all (digit_in radix) ds
                  then Fin (of_nat (digits_val radix 0 ds)) else NaN
              | None \<Rightarrow>
                  (case scan_signed t of
                     Some (v, []) \<Rightarrow> v
                   | _ \<Rightarrow> NaN))"

subsection \<open>JSON scalars\<close>

text \<open>
  A field of a JSON request body is absent (\<^verbatim>\<open>undefined\<close>) or a JSON scalar. Arrays and
  objects as field values are outside this model.
\<close>

datatype jsval = JUndefined | JNull | JBool bool | JNum jsnum | JStr string

fun truthy :: "jsval \<Rightarrow> bool" where
  "truthy JUndefined = False"
| "truthy JNull = False"
| "truthy (JBool b) = b"
| "truthy (JNum n) = num_truthy n"
| "truthy (JStr s) = (s \<noteq> [])"

text \<open>\<^verbatim>\<open>a || b\<close>: the left operand when it is truthy, else the right one.\<close>

definition js_or :: "jsval \<Rightarrow> jsval \<Rightarrow> jsval" where
  "js_or a b = (if truthy a then a else b)"

fun toNumber :: "jsval \<Rightarrow> jsnum" where
  "toNumber JUndefined = NaN"
| "toNumber JNull = Fin 0"
| "toNumber (JBool b) = (if b then Fin 1 else Fin 0)"
| "toNumber (JNum n) = n"
| "toNumber (JStr s) = toNumber_str s"

text \<open>Comparisons of a value with a number literal: the value is converted to a number.\<close>

definition js_lt :: "jsval \<Rightarrow> jsnum \<Rightarrow> bool" where
  "js_lt v n = num_lt (toNumber v) n"

definition js_gt :: "jsval \<Rightarrow> jsnum \<Rightarrow> bool" where
  "js_gt v n = num_lt n (toNumber v)"

definition js_le :: "jsval \<Rightarrow> jsnum \<Rightarrow> bool" where
  "js_le v n = num_le (toNumber v) n"

text \<open>
  \<^verbatim>\<open>v.length\<close> for a value that is neither \<^verbatim>\<open>undefined\<close> nor \<^verbatim>\<open>null\<close>: the
  length of a string, \<^verbatim>\<open>undefined\<close> for a number or a boolean.
\<close>

fun js_length :: "jsval \<Rightarrow> jsval" where
  "js_length (JStr s) = JNum (Fin (of_nat (length s)))"
| "js_length v = JUndefined"

text \<open>A query parameter, absent or a string, in a condition, under \<^verbatim>\<open>isNaN\<close> and in a comparison.\<close>

definition param_truthy :: "string option \<Rightarrow> bool" where
  "param_truthy p = (case p of None \<Rightarrow> False | Some s \<Rightarrow> s \<noteq> [])"

definition param_num :: "string option \<Rightarrow> jsnum" where
  "param_num p = (case p of None \<Rightarrow> NaN | Some s \<Rightarrow> toNumber_str s)"

definition isNaN :: "string option \<Rightarrow> bool" where
  "isNaN p = (param_num p = NaN)"

subsection \<open>Rendering a number with one decimal\<close>

function show_nat :: "nat \<Rightarrow> string" where
  "show_nat n =
     (if n < 10 then [char_of (48 + n)] else show_nat (n div 10) @ [char_of (48 + n mod 10)])"
  by pat_completeness auto
termination
  by (relation "measure id") auto

declare show_nat.simps [simp del]

text \<open>
  \<^verbatim>\<open>x.toFixed(1)\<close>: the sign is set aside, the tenths are rounded to the nearest
  integer with a tie going up, and the digits are written with one decimal (below
  \<open>10^21\<close>, where the runtime changes notation).
\<close>

definition tenths :: "rat \<Rightarrow> nat" where
  "tenths x = nat \<lfloor>10 * x + 1 / 2\<rfloor>"

fun toFixed1 :: "jsnum \<Rightarrow> string" where
  "toFixed1 NaN = ''NaN''"
| "toFixed1 PInf = ''Infinity''"
| "toFixed1 NInf = ''-Infinity''"
| "toFixed1 (Fin x) =
     (if x < 0
      then ''-'' @ show_nat (tenths (- x) div 10) @ ''.'' @ show_nat (tenths (- x) mod 10)
      else show_nat (tenths x div 10) @ ''.'' @ show_nat (tenths x mod 10))"

text \<open>\<^verbatim>\<open>parseFloat(v)\<close> on a value: a number reads back as itself, anything else through its text.\<close>

fun parseFloat_val :: "jsval \<Rightarrow> jsnum" where
  "parseFloat_val (JNum n) = n"
| "parseFloat_val (JStr s) = parseFloat_str s"
| "parseFloat_val JUndefined = parseFloat_str ''undefined''"
| "parseFloat_val JNull = parseFloat_str ''null''"
| "parseFloat_val (JBool b) = parseFloat_str (if b then ''true'' else ''false'')"

section \<open>The entity store\<close>

text \<open>
  The four tables the handlers touch, and the users table for the owner of a spot. Only
  the Booking model is among the sources (\<^verbatim>\<open>db/models/booking.js\<close>: \<^verbatim>\<open>spotId\<close>,
  \<^verbatim>\<open>userId\<close>, \<^verbatim>\<open>startDate\<close>, \<^verbatim>\<open>endDate\<close>, none nullable, and the primary key
  the ORM adds); a date is a point on the integer time line. The columns of the other
  tables are the attributes the handlers read and write. The columns of a spot that come
  from a request body hold the body's values as they were given.
\<close>

record booking =
  bk_id :: nat
  bk_spotId :: nat
  bk_userId :: nat
  bk_startDate :: int
  bk_endDate :: int

record spot =
  sp_id :: nat
  sp_ownerId :: nat
  sp_address :: jsval
  sp_city :: jsval
  sp_state :: jsval
  sp_country :: jsval
  sp_lat :: jsval
  sp_lng :: jsval
  sp_name :: jsval
  sp_description :: jsval
  sp_price :: jsval
  sp_createdAt :: int
  sp_updatedAt :: int

record spotImage =
  im_id :: nat
  im_spotId :: nat
  im_url :: jsval
  im_preview :: jsval

record review =
  rv_id :: nat
  rv_spotId :: nat
  rv_userId :: nat
  rv_stars :: int

record user =
  us_id :: nat
  us_firstName :: string
  us_lastName :: string

record store =
  db_spots :: "spot list"
  db_images :: "spotImage list"
  db_reviews :: "review list"
  db_bookings :: "booking list"
  db_users :: "user list"
  db_nextSpotId :: nat
  db_nextImageId :: nat

text \<open>
  A path parameter \<^verbatim>\<open>:spotId\<close> is a string. The key it is matched against in the
  store: a run of decimal digits is the number it writes, and any other text matches no
  row in this model.
\<close>

definition key_of :: "string \<Rightarrow> nat option" where
  "key_of p = (if p \<noteq> [] \<and> list_all (digit_in 10) p then Some (digits_val 10 0 p) else None)"

text \<open>\<^verbatim>\<open>Spot.findByPk(spotId)\<close>.\<close>

definition Spot_findByPk :: "store \<Rightarrow> string \<Rightarrow> spot option" where
  "Spot_findByPk st p =
     (case key_of p of None \<Rightarrow> None | Some k \<Rightarrow> find (\<lambda>s. sp_id s = k) (db_spots st))"

text \<open>\<^verbatim>\<open>Model.destroy({ where: { spotId } })\<close> on the three child tables.\<close>

definition SpotImage_destroy :: "store \<Rightarrow> string \<Rightarrow> store" where
  "SpotImage_destroy st p =
     st\<lparr>db_images := filter (\<lambda>i. key_of p \<noteq> Some (im_spotId i)) (db_images st)\<rparr>"

definition Review_destroy :: "store \<Rightarrow> string \<Rightarrow> store" where
  "Review_destroy st p =
     st\<lparr>db_reviews := filter (\<lambda>r. key_of p \<noteq> Some (rv_spotId r)) (db_reviews st)\<rparr>"

definition Booking_destroy :: "store \<Rightarrow> string \<Rightarrow> store" where
  "Booking_destroy st p =
     st\<lparr>db_bookings := filter (\<lambda>b. key_of p \<noteq> Some (bk_spotId b)) (db_bookings st)\<rparr>"

text \<open>\<^verbatim>\<open>spot.destroy()\<close>: the row with the instance's primary key goes.\<close>

definition spot_destroy :: "store \<Rightarrow> spot \<Rightarrow> store" where
  "spot_destroy st s = st\<lparr>db_spots := filter (\<lambda>x. sp_id x \<noteq> sp_id s) (db_spots st)\<rparr>"

text \<open>The nine fields the create and update handlers read from the request body.\<close>

record body =
  bd_address :: jsval
  bd_city :: jsval
  bd_state :: jsval
  bd_country :: jsval
  bd_lat :: jsval
  bd_lng :: jsval
  bd_name :: jsval
  bd_description :: jsval
  bd_price :: jsval

text \<open>\<^verbatim>\<open>Spot.create({ ownerId, ...body })\<close>: a new row under a fresh key, stamped with the time of the call.\<close>

definition Spot_create :: "store \<Rightarrow> nat \<Rightarrow> body \<Rightarrow> int \<Rightarrow> store \<times> spot" where
  "Spot_create st owner b now =
     (let newSpot = \<lparr>sp_id = db_nextSpotId st, sp_ownerId = owner,
            sp_address = bd_address b, sp_city = bd_city b, sp_state = bd_state b,
            sp_country = bd_country b, sp_lat = bd_lat b, sp_lng = bd_lng b,
            sp_name = bd_name b, sp_description = bd_description b, sp_price = bd_price b,
            sp_createdAt = now, sp_updatedAt = now\<rparr>
      in (st\<lparr>db_spots := db_spots st @ [newSpot], db_nextSpotId := Suc (db_nextSpotId st)\<rparr>,
          newSpot))"

text \<open>\<^verbatim>\<open>spot.update({ ...body })\<close>: the nine columns are overwritten in the instance and in its row.\<close>

definition spot_update :: "store \<Rightarrow> spot \<Rightarrow> body \<Rightarrow> int \<Rightarrow> store \<times> spot" where
  "spot_update st s b now =
     (let s' = s\<lparr>sp_address := bd_address b, sp_city := bd_city b, sp_state := bd_state b,
            sp_country := bd_country b, sp_lat := bd_lat b, sp_lng := bd_lng b,
            sp_name := bd_name b, sp_description := bd_description b, sp_price := bd_price b,
            sp_updatedAt := now\<rparr>
      in (st\<lparr>db_spots := map (\<lambda>x. if sp_id x = sp_id s then s' else x) (db_spots st)\<rparr>, s'))"

text \<open>\<^verbatim>\<open>SpotImage.create({ spotId, url, preview })\<close>, with the parameter as the foreign key.\<close>

definition SpotImage_create :: "store \<Rightarrow> string \<Rightarrow> jsval \<Rightarrow> jsval \<Rightarrow> store \<times> spotImage" where
  "SpotImage_create st p url preview =
     (let newImage = \<lparr>im_id = db_nextImageId st,
            im_spotId = (case key_of p of None \<Rightarrow> 0 | Some k \<Rightarrow> k),
            im_url = url, im_preview = preview\<rparr>
      in (st\<lparr>db_images := db_images st @ [newImage], db_nextImageId := Suc (db_nextImageId st)\<rparr>,
          newImage))"

text \<open>
  \<^verbatim>\<open>Review.findOne({ where: { spotId }, attributes: [[AVG(stars), alias]], raw: true })\<close>:
  an aggregate with no grouping yields one row whatever the table holds, whose only
  column is null over no rows and the mean of \<^verbatim>\<open>stars\<close> otherwise. The mean is exact
  here and is handed to the handler as a number.
\<close>

definition stars_of :: "store \<Rightarrow> nat \<Rightarrow> int list" where
  "stars_of st k = map rv_stars (filter (\<lambda>r. rv_spotId r = k) (db_reviews st))"

definition mean :: "int list \<Rightarrow> rat" where
  "mean xs = of_int (sum_list xs) / of_nat (length xs)"

definition Review_findOne_avg :: "store \<Rightarrow> nat \<Rightarrow> jsval option" where
  "Review_findOne_avg st k =
     Some (if stars_of st k = [] then JNull else JNum (Fin (mean (stars_of st k))))"

text \<open>\<^verbatim>\<open>Review.count({ where: { spotId } })\<close>.\<close>

definition Review_count :: "store \<Rightarrow> nat \<Rightarrow> nat" where
  "Review_count st k = length (filter (\<lambda>r. rv_spotId r = k) (db_reviews st))"

text \<open>
  The \<^verbatim>\<open>SpotImage\<close> include of the two list queries
  (\<^verbatim>\<open>where: { preview: true }, required: false\<close>): the preview images of a spot, in
  table order; a spot with none is still returned.
\<close>

definition preview_images :: "store \<Rightarrow> spot \<Rightarrow> spotImage list" where
  "preview_images st s =
     filter (\<lambda>i. im_spotId i = sp_id s \<and> im_preview i = JBool True) (db_images st)"

text \<open>The \<^verbatim>\<open>SpotImage\<close> include of the detail query: every image of the spot.\<close>

definition images_of :: "store \<Rightarrow> spot \<Rightarrow> spotImage list" where
  "images_of st s = filter (\<lambda>i. im_spotId i = sp_id s) (db_images st)"

section \<open>The handlers of routes/api/spots.js\<close>

text \<open>
  A handler takes the store and the request and returns the response it sends; a handler
  that writes returns the new store as well. The store's calls always succeed in this
  model, so the \<^verbatim>\<open>catch\<close> branches that answer 500 are never taken. The handlers
  behind \<^verbatim>\<open>requireAuth\<close> take the identifier of the authenticated user
  (\<^verbatim>\<open>req.user.id\<close>). \<open>Thrown\<close> stands for an exception that leaves the handler.
\<close>

record spotItem =
  it_spot :: spot
  it_avgRating :: jsval
  it_previewImage :: jsval

record spotDetail =
  dt_spot :: spot
  dt_numReviews :: nat
  dt_avgStarRating :: jsval
  dt_SpotImages :: "spotImage list"
  dt_Owner :: user

datatype response =
    Message nat string
  | Errors nat string "(string \<times> string) list"
  | SpotList nat "spotItem list"
  | SpotPage nat "spotItem list" jsnum jsnum
  | SpotJson nat spot
  | Detail nat spotDetail
  | ImageJson nat nat jsval jsval
  | Thrown

text \<open>The body \<^verbatim>\<open>{ message: "Spot couldn't be found" }\<close> of every 404 of this router.\<close>

definition not_found :: response where
  "not_found = Message 404 ''Spot couldn't be found''"

text \<open>\<^verbatim>\<open>spot.SpotImages.length ? spot.SpotImages[0].url : null\<close>.\<close>

definition previewImage :: "spotImage list \<Rightarrow> jsval" where
  "previewImage imgs = (case imgs of [] \<Rightarrow> JNull | i # rest \<Rightarrow> im_url i)"

subsection \<open>GET /current\<close>

text \<open>
  The query selects thirteen columns and no aggregate, so \<^verbatim>\<open>spot.dataValues\<close> holds
  those thirteen entries. Reading a property that an object does not have gives
  \<^verbatim>\<open>undefined\<close>.
\<close>

definition current_attributes :: "string list" where
  "current_attributes = [''id'', ''ownerId'', ''address'', ''city'', ''state'', ''country'',
     ''lat'', ''lng'', ''name'', ''description'', ''price'', ''createdAt'', ''updatedAt'']"

definition spot_column :: "spot \<Rightarrow> string \<Rightarrow> jsval" where
  "spot_column s a =
     (if a = ''id'' then JNum (Fin (of_nat (sp_id s)))
      else if a = ''ownerId'' then JNum (Fin (of_nat (sp_ownerId s)))
      else if a = ''address'' then sp_address s
      else if a = ''city'' then sp_city s
      else if a = ''state'' then sp_state s
      else if a = ''country'' then sp_country s
      else if a = ''lat'' then sp_lat s
      else if a = ''lng'' then sp_lng s
      else if a = ''name'' then sp_name s
      else if a = ''description'' then sp_description s
      else if a = ''price'' then sp_price s
      else if a = ''createdAt'' then JNum (Fin (of_int (sp_createdAt s)))
      else if a = ''updatedAt'' then JNum (Fin (of_int (sp_updatedAt s)))
      else JUndefined)"

definition dataValues :: "string list \<Rightarrow> spot \<Rightarrow> (string \<times> jsval) list" where
  "dataValues attrs s = map (\<lambda>a. (a, spot_column s a)) attrs"

definition get_prop :: "(string \<times> jsval) list \<Rightarrow> string \<Rightarrow> jsval" where
  "get_prop obj k = (case map_of obj k of None \<Rightarrow> JUndefined | Some v \<Rightarrow> v)"

definition current_item :: "store \<Rightarrow> spot \<Rightarrow> spotItem" where
  "current_item st s =
     \<lparr>it_spot = s,
      it_avgRating = js_or (get_prop (dataValues current_attributes s) ''avgRating'') JNull,
      it_previewImage = previewImage (preview_images st s)\<rparr>"

definition getCurrent :: "store \<Rightarrow> nat \<Rightarrow> response" where
  "getCurrent st uid =
     SpotList 200 (map (current_item st) (filter (\<lambda>s. sp_ownerId s = uid) (db_spots st)))"

subsection \<open>GET /:spotId\<close>

text \<open>
  Line 137 of the handler, the local \<^verbatim>\<open>avgStarRating\<close>:
  \<^verbatim>\<open>avgRating.avgStarRating ? parseFloat(avgRating.avgStarRating).toFixed(1) : null\<close>.
\<close>

definition rounded_avgStarRating :: "jsval \<Rightarrow> jsval" where
  "rounded_avgStarRating raw = (if truthy raw then JStr (toFixed1 (parseFloat_val raw)) else JNull)"

text \<open>
  The response object is built on lines 139 to 161; its \<^verbatim>\<open>avgStarRating\<close> entry is
  \<^verbatim>\<open>avgRating.avgStarRating || null\<close>. Reading \<^verbatim>\<open>spot.Owner.id\<close> throws when the
  owner's row is missing, and this handler has no \<^verbatim>\<open>catch\<close>.
\<close>

definition getSpotById :: "store \<Rightarrow> string \<Rightarrow> response" where
  "getSpotById st spotId =
     (if spotId = [] \<or> toNumber_str spotId = NaN
      then Message 400 ''Invalid spotId. It must be a valid integer.''
      else case Spot_findByPk st spotId of
        None \<Rightarrow> not_found
      | Some s \<Rightarrow>
          (case Review_findOne_avg st (sp_id s) of
             None \<Rightarrow> Thrown
           | Some raw \<Rightarrow>
               (let numReviews = Review_count st (sp_id s);
                    avgStarRating = rounded_avgStarRating raw
                in case find (\<lambda>u. us_id u = sp_ownerId s) (db_users st) of
                     None \<Rightarrow> Thrown
                   | Some owner \<Rightarrow>
                       Detail 200 \<lparr>dt_spot = s, dt_numReviews = numReviews,
                         dt_avgStarRating = js_or raw JNull,
                         dt_SpotImages = images_of st s, dt_Owner = owner\<rparr>)))"

subsection \<open>GET /\<close>

record query =
  q_page :: "string option"
  q_size :: "string option"
  q_minLat :: "string option"
  q_maxLat :: "string option"
  q_minLng :: "string option"
  q_maxLng :: "string option"
  q_minPrice :: "string option"
  q_maxPrice :: "string option"

text \<open>
  The \<^verbatim>\<open>where\<close> object: \<^verbatim>\<open>where.lat\<close>, \<^verbatim>\<open>where.lng\<close> and \<^verbatim>\<open>where.price\<close>
  each hold an optional \<^verbatim>\<open>Op.gte\<close> and an optional \<^verbatim>\<open>Op.lte\<close> bound; the spread
  \<^verbatim>\<open>{ ...where.lat, [Op.lte]: v }\<close> keeps the lower bound set before it.
\<close>

record whereClause =
  w_lat_gte :: "jsnum option"
  w_lat_lte :: "jsnum option"
  w_lng_gte :: "jsnum option"
  w_lng_lte :: "jsnum option"
  w_price_gte :: "jsnum option"
  w_price_lte :: "jsnum option"

text \<open>
  The guard of a latitude or longitude filter,
  \<^verbatim>\<open>v && (isNaN(v) || v < -bound || v > bound)\<close>, and the guard of a price filter,
  \<^verbatim>\<open>v && v < 0\<close>.
\<close>

definition coord_invalid :: "string option \<Rightarrow> jsnum \<Rightarrow> bool" where
  "coord_invalid p bound =
     (param_truthy p \<and>
      (isNaN p \<or> num_lt (param_num p) (num_neg bound) \<or> num_lt bound (param_num p)))"

definition price_invalid :: "string option \<Rightarrow> bool" where
  "price_invalid p = (param_truthy p \<and> num_lt (param_num p) (Fin 0))"

text \<open>The bound a filter that passed its guard contributes: \<^verbatim>\<open>parseFloat(v)\<close> when \<^verbatim>\<open>v\<close> is truthy.\<close>

definition filter_bound :: "string option \<Rightarrow> jsnum option" where
  "filter_bound p = (if param_truthy p then Some (parseFloat p) else None)"

definition bad_request :: "string \<Rightarrow> string \<Rightarrow> response" where
  "bad_request field msg = Errors 400 ''Bad Request'' [(field, msg)]"

text \<open>
  Lines 182 to 221: the six guards in the order of the source, each returning at once;
  the bounds are collected when all six have passed, which is what the interleaved
  assignments of the source amount to.
\<close>

definition build_where :: "query \<Rightarrow> response + whereClause" where
  "build_where q =
     (if coord_invalid (q_minLat q) (Fin 90)
      then Inl (bad_request ''minLat'' ''Minimum latitude is invalid'')
      else if coord_invalid (q_maxLat q) (Fin 90)
      then Inl (bad_request ''maxLat'' ''Maximum latitude is invalid'')
      else if coord_invalid (q_minLng q) (Fin 180)
      then Inl (bad_request ''minLng'' ''Minimum longitude is invalid'')
      else if coord_invalid (q_maxLng q) (Fin 180)
      then Inl (bad_request ''maxLng'' ''Maximum longitude is invalid'')
      else if price_invalid (q_minPrice q)
      then Inl (bad_request ''minPrice'' ''Minimum price must be greater than or equal to 0'')
      else if price_invalid (q_maxPrice q)
      then Inl (bad_request ''maxPrice'' ''Maximum price must be greater than or equal to 0'')
      else Inr \<lparr>w_lat_gte = filter_bound (q_minLat q), w_lat_lte = filter_bound (q_maxLat q),
                w_lng_gte = filter_bound (q_minLng q), w_lng_lte = filter_bound (q_maxLng q),
                w_price_gte = filter_bound (q_minPrice q),
                w_price_lte = filter_bound (q_maxPrice q)\<rparr>)"

text \<open>Lines 168 to 221: paging first, then the filters.\<close>

definition validateQuery :: "query \<Rightarrow> response + (jsnum \<times> jsnum \<times> whereClause)" where
  "validateQuery q =
     (let page = num_or (parseInt (q_page q)) (Fin 1);
          size' = num_or (parseInt (q_size q)) (Fin 20)
      in if num_lt page (Fin 1)
         then Inl (bad_request ''page'' ''Page must be greater than or equal to 1'')
         else if num_lt size' (Fin 1) \<or> num_lt (Fin 20) size'
         then Inl (bad_request ''size'' ''Size must be between 1 and 20'')
         else case build_where q of
                Inl r \<Rightarrow> Inl r
              | Inr w \<Rightarrow> Inr (page, size', w))"

text \<open>
  \<^verbatim>\<open>Spot.findAll({ where, include, limit, offset })\<close>: the rows that satisfy every
  bound of the \<^verbatim>\<open>where\<close> object, \<^verbatim>\<open>Op.gte\<close> as \<open>\<ge>\<close> and \<^verbatim>\<open>Op.lte\<close> as
  \<open>\<le>\<close> on the number the column holds, in table order, \<^verbatim>\<open>offset\<close> rows skipped
  and at most \<^verbatim>\<open>limit\<close> rows kept.
\<close>

definition lower_ok :: "jsnum option \<Rightarrow> jsval \<Rightarrow> bool" where
  "lower_ok b v = (case b of None \<Rightarrow> True | Some n \<Rightarrow> num_le n (toNumber v))"

definition upper_ok :: "jsnum option \<Rightarrow> jsval \<Rightarrow> bool" where
  "upper_ok b v = (case b of None \<Rightarrow> True | Some n \<Rightarrow> num_le (toNumber v) n)"

definition where_matches :: "whereClause \<Rightarrow> spot \<Rightarrow> bool" where
  "where_matches w s =
     (lower_ok (w_lat_gte w) (sp_lat s) \<and> upper_ok (w_lat_lte w) (sp_lat s) \<and>
      lower_ok (w_lng_gte w) (sp_lng s) \<and> upper_ok (w_lng_lte w) (sp_lng s) \<and>
      lower_ok (w_price_gte w) (sp_price s) \<and> upper_ok (w_price_lte w) (sp_price s))"

definition Spot_findAll :: "store \<Rightarrow> whereClause \<Rightarrow> nat \<Rightarrow> nat \<Rightarrow> spot list" where
  "Spot_findAll st w limit offset = take limit (drop offset (filter (where_matches w) (db_spots st)))"

text \<open>A page number or a page size that passed validation, as a count.\<close>

fun num_nat :: "jsnum \<Rightarrow> nat" where
  "num_nat (Fin x) = nat \<lfloor>x\<rfloor>"
| "num_nat n = 0"

text \<open>
  Lines 254 to 279, the entry of one spot: \<^verbatim>\<open>avgRating ? avgRating.avgRating : null\<close>
  and the preview image.
\<close>

definition list_item :: "store \<Rightarrow> spot \<Rightarrow> spotItem" where
  "list_item st s =
     \<lparr>it_spot = s,
      it_avgRating = (case Review_findOne_avg st (sp_id s) of None \<Rightarrow> JNull | Some v \<Rightarrow> v),
      it_previewImage = previewImage (preview_images st s)\<rparr>"

definition getSpots :: "store \<Rightarrow> query \<Rightarrow> response" where
  "getSpots st q =
     (case validateQuery q of
        Inl r \<Rightarrow> r
      | Inr (page, size', w) \<Rightarrow>
          SpotPage 200
            (map (list_item st)
               (Spot_findAll st w (num_nat size') ((num_nat page - 1) * num_nat size')))
            page size')"

subsection \<open>POST /:spotId/images\<close>

definition postImage :: "store \<Rightarrow> nat \<Rightarrow> string \<Rightarrow> jsval \<Rightarrow> jsval \<Rightarrow> store \<times> response" where
  "postImage st uid spotId url preview =
     (case Spot_findByPk st spotId of
        None \<Rightarrow> (st, not_found)
      | Some s \<Rightarrow>
          if sp_ownerId s \<noteq> uid then (st, Message 403 ''Forbidden'')
          else (let (st', newImage) = SpotImage_create st spotId url preview
                in (st', ImageJson 201 (im_id newImage) (im_url newImage) (im_preview newImage))))"

subsection \<open>POST / and PUT /:spotId\<close>

text \<open>
  The validation block, written twice in the source (lines 337 to 369 and 434 to 466)
  with the same text: the \<^verbatim>\<open>errors\<close> object, as the list of its entries in the order
  they are assigned. Each key is assigned at most once.
\<close>

definition validate_body :: "body \<Rightarrow> (string \<times> string) list" where
  "validate_body b =
     (if \<not> truthy (bd_address b) then [(''address'', ''Street address is required'')] else []) @
     (if \<not> truthy (bd_city b) then [(''city'', ''City is required'')] else []) @
     (if \<not> truthy (bd_state b) then [(''state'', ''State is required'')] else []) @
     (if \<not> truthy (bd_country b) then [(''country'', ''Country is required'')] else []) @
     (if bd_lat b = JUndefined \<or> js_lt (bd_lat b) (Fin (- 90)) \<or> js_gt (bd_lat b) (Fin 90)
      then [(''lat'', ''Latitude must be within -90 and 90'')] else []) @
     (if bd_lng b = JUndefined \<or> js_lt (bd_lng b) (Fin (- 180)) \<or> js_gt (bd_lng b) (Fin 180)
      then [(''lng'', ''Longitude must be within -180 and 180'')] else []) @
     (if \<not> truthy (bd_name b) \<or> js_gt (js_length (bd_name b)) (Fin 50)
      then [(''name'', ''Name must be less than 50 characters'')] else []) @
     (if \<not> truthy (bd_description b) then [(''description'', ''Description is required'')] else []) @
     (if bd_price b = JUndefined \<or> js_le (bd_price b) (Fin 0)
      then [(''price'', ''Price per day must be a positive number'')] else [])"

definition postSpot :: "store \<Rightarrow> nat \<Rightarrow> int \<Rightarrow> body \<Rightarrow> store \<times> response" where
  "postSpot st uid now b =
     (let errors = validate_body b
      in if errors \<noteq> [] then (st, Errors 400 ''Validation Error'' errors)
         else (let (st', newSpot) = Spot_create st uid b now in (st', SpotJson 201 newSpot)))"

definition putSpot :: "store \<Rightarrow> nat \<Rightarrow> int \<Rightarrow> string \<Rightarrow> body \<Rightarrow> store \<times> response" where
  "putSpot st uid now spotId b =
     (case Spot_findByPk st spotId of
        None \<Rightarrow> (st, not_found)
      | Some s \<Rightarrow>
          if sp_ownerId s \<noteq> uid then (st, Message 403 ''Forbidden'')
          else (let errors = validate_body b
                in if errors \<noteq> [] then (st, Errors 400 ''Validation Error'' errors)
                   else (let (st', s') = spot_update st s b now in (st', SpotJson 200 s'))))"

subsection \<open>DELETE /:spotId\<close>

definition deleteSpot :: "store \<Rightarrow> nat \<Rightarrow> string \<Rightarrow> store \<times> response" where
  "deleteSpot st uid spotId =
     (case Spot_findByPk st spotId of
        None \<Rightarrow> (st, not_found)
      | Some s \<Rightarrow>
          if sp_ownerId s \<noteq> uid then (st, not_found)
          else (let st1 = SpotImage_destroy st spotId;
                    st2 = Review_destroy st1 spotId;
                    st3 = Booking_destroy st2 spotId;
                    st4 = spot_destroy st3 s
                in (st4, Message 200 ''Successfully deleted'')))"

section \<open>The booking conflict rule\<close>

text \<open>
  Modelled from the spec: the bookings router (\<^verbatim>\<open>routes/api/bookings.js\<close>, mounted
  under \<^verbatim>\<open>/:spotId/bookings\<close>) is not among the sources; only the Booking model is.
  The spec's Availability Engine: two date ranges \<open>[s1,e1)\<close> and \<open>[s2,e2)\<close> of the
  same spot conflict if \<open>s1 < e2\<close> and \<open>s2 < e1\<close>, and when an existing booking is
  updated its own record is left out of the scan. \<open>conflict_scan\<close> returns the bookings
  of the spot that a candidate range conflicts with; \<open>self\<close> is the key of the booking
  being updated, if any.
\<close>

definition conflicts :: "int \<Rightarrow> int \<Rightarrow> int \<Rightarrow> int \<Rightarrow> bool" where
  "conflicts s1 e1 s2 e2 = (s1 < e2 \<and> s2 < e1)"

definition conflict_scan :: "booking list \<Rightarrow> nat \<Rightarrow> nat option \<Rightarrow> int \<Rightarrow> int \<Rightarrow> booking list" where
  "conflict_scan bs spotId self s e =
     filter (\<lambda>b. bk_spotId b = spotId \<and> self \<noteq> Some (bk_id b) \<and>
                 conflicts s e (bk_startDate b) (bk_endDate b)) bs"

section \<open>The invalid bodies the specification lists\<close>

text \<open>
  The specification calls a body invalid when address, city, state, country or
  description is missing, when lat is outside \<open>[-90, 90]\<close> or lng outside
  \<open>[-180, 180]\<close>, when name is missing or longer than 50 characters, or when price is
  missing or not above 0. A field is missing when the body does not have it; the range
  and length conditions are read on a number and on a string.
\<close>

definition missing :: "jsval \<Rightarrow> bool" where
  "missing v = (v = JUndefined)"

fun outside :: "jsval \<Rightarrow> rat \<Rightarrow> bool" where
  "outside (JNum (Fin x)) bound = (x < - bound \<or> bound < x)"
| "outside (JNum PInf) bound = True"
| "outside (JNum NInf) bound = True"
| "outside v bound = False"

fun too_long :: "jsval \<Rightarrow> bool" where
  "too_long (JStr n) = (50 < length n)"
| "too_long v = False"

fun not_positive :: "jsval \<Rightarrow> bool" where
  "not_positive (JNum (Fin x)) = (x \<le> 0)"
| "not_positive (JNum NInf) = True"
| "not_positive v = False"

definition invalid_body :: "body \<Rightarrow> bool" where
  "invalid_body b =
     (missing (bd_address b) \<or> missing (bd_city b) \<or> missing (bd_state b) \<or>
      missing (bd_country b) \<or> missing (bd_description b) \<or>
      outside (bd_lat b) 90 \<or> outside (bd_lng b) 180 \<or>
      missing (bd_name b) \<or> too_long (bd_name b) \<or>
      missing (bd_price b) \<or> not_positive (bd_price b))"

section \<open>Example data\<close>

text \<open>
  A store with one spot, owned by user 1, that has two images (the second one flagged as
  preview), two reviews with 3 and 5 stars and one booking; a request body that passes
  validation and one that does not; the query with no parameter.
\<close>

definition example_spot :: spot where
  "example_spot =
     \<lparr>sp_id = 1, sp_ownerId = 1, sp_address = JStr ''1 Main St'', sp_city = JStr ''Springfield'',
      sp_state = JStr ''Oregon'', sp_country = JStr ''USA'', sp_lat = JNum (Fin 44),
      sp_lng = JNum (Fin (- 123)), sp_name = JStr ''Loft'', sp_description = JStr ''A quiet loft'',
      sp_price = JNum (Fin 120), sp_createdAt = 0, sp_updatedAt = 0\<rparr>"

definition example_store :: store where
  "example_store =
     \<lparr>db_spots = [example_spot],
      db_images = [\<lparr>im_id = 1, im_spotId = 1, im_url = JStr ''a.png'', im_preview = JBool False\<rparr>,
                   \<lparr>im_id = 2, im_spotId = 1, im_url = JStr ''b.png'', im_preview = JBool True\<rparr>],
      db_reviews = [\<lparr>rv_id = 1, rv_spotId = 1, rv_userId = 2, rv_stars = 3\<rparr>,
                    \<lparr>rv_id = 2, rv_spotId = 1, rv_userId = 3, rv_stars = 5\<rparr>],
      db_bookings = [\<lparr>bk_id = 1, bk_spotId = 1, bk_userId = 2, bk_startDate = 1, bk_endDate = 5\<rparr>],
      db_users = [\<lparr>us_id = 1, us_firstName = ''Ada'', us_lastName = ''Byron''\<rparr>],
      db_nextSpotId = 2, db_nextImageId = 3\<rparr>"

definition example_body :: body where
  "example_body =
     \<lparr>bd_address = JStr ''2 Side St'', bd_city = JStr ''Salem'', bd_state = JStr ''Oregon'',
      bd_country = JStr ''USA'', bd_lat = JNum (Fin 45), bd_lng = JNum (Fin (- 123)),
      bd_name = JStr ''Cabin'', bd_description = JStr ''A cabin'', bd_price = JNum (Fin 80)\<rparr>"

definition no_query :: query where
  "no_query =
     \<lparr>q_page = None, q_size = None, q_minLat = None, q_maxLat = None, q_minLng = None,
      q_maxLng = None, q_minPrice = None, q_maxPrice = None\<rparr>"

definition no_filter :: whereClause where
  "no_filter =
     \<lparr>w_lat_gte = None, w_lat_lte = None, w_lng_gte = None, w_lng_lte = None,
      w_price_gte = None, w_price_lte = None\<rparr>"

definition invalid_example_body :: body where
  "invalid_example_body = example_body\<lparr>bd_lat := JNum (Fin 100), bd_price := JNum (Fin 0)\<rparr>"

section \<open>Properties\<close>

subsection \<open>Lookups\<close>

lemma find_Some_D: "find P xs = Some x \<Longrightarrow> P x \<and> x \<in> set xs"
  by (induction xs) (auto split: if_splits)

lemma findByPk_key:
  "Spot_findByPk st p = Some s \<Longrightarrow> key_of p = Some (sp_id s) \<and> s \<in> set (db_spots st)"
  by (auto simp: Spot_findByPk_def split: option.splits dest: find_Some_D)

lemma example_find: "Spot_findByPk example_store ''1'' = Some example_spot"
  by (simp add: Spot_findByPk_def key_of_def digit_in_def digit_val_def digit_num_def
      example_store_def example_spot_def)


subsection \<open>A key passes the guard of the detail handler\<close>









subsection \<open>The entries of the two list responses\<close>

lemma build_where_Inl:
  "build_where q = Inl r \<Longrightarrow> \<exists>field msg. r = Errors 400 ''Bad Request'' [(field, msg)]"
  by (auto simp: build_where_def bad_request_def split: if_splits)

lemma validateQuery_Inl:
  "validateQuery q = Inl r \<Longrightarrow> \<exists>field msg. r = Errors 400 ''Bad Request'' [(field, msg)]"
  by (auto simp: validateQuery_def Let_def bad_request_def split: if_splits sum.splits
      dest: build_where_Inl)

lemma getSpots_items:
  assumes "getSpots st q = SpotPage c items page sz" and "a \<in> set items"
  shows "\<exists>s \<in> set (db_spots st). a = list_item st s"
proof (cases "validateQuery q")
  case (Inl r)
  with assms(1) validateQuery_Inl [OF Inl] show ?thesis by (auto simp: getSpots_def)
next
  case (Inr v)
  obtain pg sz' w where v: "v = (pg, sz', w)" by (cases v)
  from assms Inr v obtain s
    where "s \<in> set (Spot_findAll st w (num_nat sz') ((num_nat pg - 1) * num_nat sz'))"
      and a: "a = list_item st s"
    by (auto simp: getSpots_def)
  then have "s \<in> set (db_spots st)"
    by (auto simp: Spot_findAll_def dest!: in_set_takeD in_set_dropD)
  with a show ?thesis by blast
qed

lemma getCurrent_items:
  assumes "getCurrent st uid = SpotList c items" and "a \<in> set items"
  shows "\<exists>s \<in> set (db_spots st). sp_ownerId s = uid \<and> a = current_item st s"
  using assms by (auto simp: getCurrent_def)

lemma list_item_fields:
  "it_spot (list_item st s) = s"
  "it_avgRating (list_item st s)
     = (if stars_of st (sp_id s) = [] then JNull else JNum (Fin (mean (stars_of st (sp_id s)))))"
  "it_previewImage (list_item st s) = previewImage (preview_images st s)"
  by (simp_all add: list_item_def Review_findOne_avg_def)

lemma current_item_fields:
  "it_spot (current_item st s) = s"
  "it_previewImage (current_item st s) = previewImage (preview_images st s)"
  by (simp_all add: current_item_def)

lemma current_item_avg: "it_avgRating (current_item st s) = JNull"
  by (simp add: current_item_def get_prop_def dataValues_def current_attributes_def js_or_def)

lemma example_getSpots:
  "getSpots example_store no_query
     = SpotPage 200
         [\<lparr>it_spot = example_spot, it_avgRating = JNum (Fin 4), it_previewImage = JStr ''b.png''\<rparr>]
         (Fin 1) (Fin 20)"
  by code_simp

lemma example_getCurrent:
  "getCurrent example_store 1
     = SpotList 200
         [\<lparr>it_spot = example_spot, it_avgRating = JNull, it_previewImage = JStr ''b.png''\<rparr>]"
  by code_simp

subsection \<open>Requests of a user who does not own the spot\<close>

text \<open>
  C6. For an existing spot and a requester who is not its owner, \<^verbatim>\<open>DELETE /:spotId\<close>
  answers 404 with the message of a missing spot, while \<^verbatim>\<open>PUT /:spotId\<close> and
  \<^verbatim>\<open>POST /:spotId/images\<close> answer 403 Forbidden, whatever the body; in all three
  cases the store that comes back is the store that went in.
\<close>

theorem non_owner_denied:
  assumes "Spot_findByPk st spotId = Some s" and "sp_ownerId s \<noteq> uid"
  shows "deleteSpot st uid spotId = (st, Message 404 ''Spot couldn't be found'')
       \<and> putSpot st uid now spotId b = (st, Message 403 ''Forbidden'')
       \<and> postImage st uid spotId url preview = (st, Message 403 ''Forbidden'')"
  using assms by (simp add: deleteSpot_def putSpot_def postImage_def not_found_def)

theorem non_owner_denied_witness:
  "Spot_findByPk example_store ''1'' = Some example_spot \<and> sp_ownerId example_spot \<noteq> 2
   \<and> deleteSpot example_store 2 ''1'' = (example_store, Message 404 ''Spot couldn't be found'')
   \<and> putSpot example_store 2 7 ''1'' example_body = (example_store, Message 403 ''Forbidden'')
   \<and> postImage example_store 2 ''1'' (JStr ''c.png'') (JBool True)
       = (example_store, Message 403 ''Forbidden'')"
proof -
  have own: "sp_ownerId example_spot \<noteq> 2" by (simp add: example_spot_def)
  show ?thesis using non_owner_denied [OF example_find own] example_find own by simp
qed

subsection \<open>Deleting a spot\<close>

text \<open>
  C7. When the owner deletes an existing spot, the answer is 200 with the message
  \<^verbatim>\<open>Successfully deleted\<close>; in the store that results no image, review or booking
  refers to the spot, no spot row has its key, and looking the parameter up finds
  nothing. The rows that go are exactly those: every table is the old one without the
  rows of that spot.
\<close>

theorem owner_delete_cascades:
  assumes "Spot_findByPk st spotId = Some s" and "sp_ownerId s = uid"
      and "deleteSpot st uid spotId = (st', r)"
  shows "r = Message 200 ''Successfully deleted''
       \<and> (\<forall>i \<in> set (db_images st'). im_spotId i \<noteq> sp_id s)
       \<and> (\<forall>v \<in> set (db_reviews st'). rv_spotId v \<noteq> sp_id s)
       \<and> (\<forall>k \<in> set (db_bookings st'). bk_spotId k \<noteq> sp_id s)
       \<and> (\<forall>x \<in> set (db_spots st'). sp_id x \<noteq> sp_id s)
       \<and> Spot_findByPk st' spotId = None
       \<and> db_images st' = filter (\<lambda>i. im_spotId i \<noteq> sp_id s) (db_images st)
       \<and> db_reviews st' = filter (\<lambda>v. rv_spotId v \<noteq> sp_id s) (db_reviews st)
       \<and> db_bookings st' = filter (\<lambda>k. bk_spotId k \<noteq> sp_id s) (db_bookings st)
       \<and> db_spots st' = filter (\<lambda>x. sp_id x \<noteq> sp_id s) (db_spots st)"
proof -
  from assms(1) have k: "key_of spotId = Some (sp_id s)" by (simp add: findByPk_key)
  have "deleteSpot st uid spotId =
      (st\<lparr>db_images := filter (\<lambda>i. im_spotId i \<noteq> sp_id s) (db_images st),
          db_reviews := filter (\<lambda>v. rv_spotId v \<noteq> sp_id s) (db_reviews st),
          db_bookings := filter (\<lambda>k. bk_spotId k \<noteq> sp_id s) (db_bookings st),
          db_spots := filter (\<lambda>x. sp_id x \<noteq> sp_id s) (db_spots st)\<rparr>,
       Message 200 ''Successfully deleted'')"
    using assms(1,2) k
    by (simp add: deleteSpot_def SpotImage_destroy_def Review_destroy_def Booking_destroy_def
        spot_destroy_def eq_commute [of "sp_id s"])
  with assms(3) have
    st': "st' = st\<lparr>db_images := filter (\<lambda>i. im_spotId i \<noteq> sp_id s) (db_images st),
          db_reviews := filter (\<lambda>v. rv_spotId v \<noteq> sp_id s) (db_reviews st),
          db_bookings := filter (\<lambda>k. bk_spotId k \<noteq> sp_id s) (db_bookings st),
          db_spots := filter (\<lambda>x. sp_id x \<noteq> sp_id s) (db_spots st)\<rparr>"
    and r: "r = Message 200 ''Successfully deleted''"
    by simp_all
  show ?thesis
    unfolding st' r using k by (simp add: Spot_findByPk_def find_None_iff)
qed

theorem owner_delete_cascades_witness:
  "Spot_findByPk example_store ''1'' = Some example_spot \<and> sp_ownerId example_spot = 1
   \<and> deleteSpot example_store 1 ''1''
       = (example_store\<lparr>db_images := [], db_reviews := [], db_bookings := [], db_spots := []\<rparr>,
          Message 200 ''Successfully deleted'')"
proof -
  have own: "sp_ownerId example_spot = 1" by (simp add: example_spot_def)
  obtain st' r where d: "deleteSpot example_store 1 ''1'' = (st', r)"
    by (cases "deleteSpot example_store 1 ''1''")
  have shape: "st' = example_store\<lparr>db_images := db_images st', db_reviews := db_reviews st',
      db_bookings := db_bookings st', db_spots := db_spots st'\<rparr>"
    using d example_find own
    by (auto simp: deleteSpot_def SpotImage_destroy_def Review_destroy_def Booking_destroy_def
        spot_destroy_def)
  from owner_delete_cascades [OF example_find own d]
  have "r = Message 200 ''Successfully deleted''"
    and "db_images st' = []" and "db_reviews st' = []" and "db_bookings st' = []"
    and "db_spots st' = []"
    by (simp_all add: example_store_def example_spot_def)
  with shape d example_find own show ?thesis by simp
qed

subsection \<open>The rating in the list of the current user's spots\<close>

text \<open>
  C10. \<^verbatim>\<open>GET /current\<close> answers 200 with one entry for each spot the user owns, in
  table order, and the \<^verbatim>\<open>avgRating\<close> of every entry is null, whatever reviews the
  store holds: the query computes no aggregate, so \<^verbatim>\<open>spot.dataValues.avgRating\<close> is
  \<^verbatim>\<open>undefined\<close> and \<^verbatim>\<open>|| null\<close> replaces it.
\<close>

theorem current_avgRating_null:
  "\<exists>items. getCurrent st uid = SpotList 200 items
       \<and> map it_spot items = filter (\<lambda>s. sp_ownerId s = uid) (db_spots st)
       \<and> (\<forall>a \<in> set items. it_avgRating a = JNull)"
  by (simp add: getCurrent_def current_item_avg current_item_fields comp_def)

theorem current_avgRating_null_witness:
  "stars_of example_store 1 = [3, 5]
   \<and> getCurrent example_store 1
       = SpotList 200
           [\<lparr>it_spot = example_spot, it_avgRating = JNull, it_previewImage = JStr ''b.png''\<rparr>]"
  using current_avgRating_null [of example_store 1]
  by (auto simp: stars_of_def getCurrent_def example_store_def example_spot_def current_item_def
      preview_images_def previewImage_def)

subsection \<open>The preview image\<close>

lemma previewImage_spec:
  "(if \<exists>i \<in> set (db_images st). im_spotId i = sp_id s \<and> im_preview i = JBool True
    then \<exists>i \<in> set (db_images st). im_spotId i = sp_id s \<and> im_preview i = JBool True
           \<and> previewImage (preview_images st s) = im_url i
    else previewImage (preview_images st s) = JNull)"
proof (cases "preview_images st s")
  case Nil
  then have "\<not> (\<exists>i \<in> set (db_images st). im_spotId i = sp_id s \<and> im_preview i = JBool True)"
    by (auto simp: preview_images_def filter_empty_conv)
  with Nil show ?thesis by (auto simp: previewImage_def)
next
  case (Cons i rest)
  then have "i \<in> set (preview_images st s)" by simp
  then have "i \<in> set (db_images st) \<and> im_spotId i = sp_id s \<and> im_preview i = JBool True"
    by (simp add: preview_images_def)
  with Cons show ?thesis by (auto simp: previewImage_def)
qed

text \<open>
  C5. In the two responses that carry a \<^verbatim>\<open>previewImage\<close>, the list of \<^verbatim>\<open>GET /\<close>
  and the list of \<^verbatim>\<open>GET /current\<close>, the \<^verbatim>\<open>previewImage\<close> of an entry is the url of
  an image row of that spot whose \<^verbatim>\<open>preview\<close> is true when such a row exists, and null
  when none exists; two entries for the same spot, one from each response, carry the same
  \<^verbatim>\<open>previewImage\<close>.
\<close>

theorem previewImage_both_paths:
  assumes "getSpots st q = SpotPage c items page sz" and "a \<in> set items"
      and "getCurrent st uid = SpotList c' items'" and "b \<in> set items'"
  shows "(if \<exists>i \<in> set (db_images st). im_spotId i = sp_id (it_spot a) \<and> im_preview i = JBool True
          then \<exists>i \<in> set (db_images st). im_spotId i = sp_id (it_spot a)
                 \<and> im_preview i = JBool True \<and> it_previewImage a = im_url i
          else it_previewImage a = JNull)
       \<and> (if \<exists>i \<in> set (db_images st). im_spotId i = sp_id (it_spot b) \<and> im_preview i = JBool True
          then \<exists>i \<in> set (db_images st). im_spotId i = sp_id (it_spot b)
                 \<and> im_preview i = JBool True \<and> it_previewImage b = im_url i
          else it_previewImage b = JNull)
       \<and> (sp_id (it_spot a) = sp_id (it_spot b) \<longrightarrow> it_previewImage a = it_previewImage b)"
proof -
  from getSpots_items [OF assms(1,2)] obtain s where a: "a = list_item st s" by blast
  from getCurrent_items [OF assms(3,4)] obtain t where b: "b = current_item st t" by blast
  have eq: "sp_id s = sp_id t \<longrightarrow> preview_images st s = preview_images st t"
    by (simp add: preview_images_def)
  show ?thesis
    unfolding a b list_item_fields current_item_fields
    using previewImage_spec [of st s] previewImage_spec [of st t] eq
    by presburger
qed

theorem previewImage_both_paths_witness:
  "getSpots example_store no_query
     = SpotPage 200
         [\<lparr>it_spot = example_spot, it_avgRating = JNum (Fin 4), it_previewImage = JStr ''b.png''\<rparr>]
         (Fin 1) (Fin 20)
   \<and> getCurrent example_store 1
     = SpotList 200
         [\<lparr>it_spot = example_spot, it_avgRating = JNull, it_previewImage = JStr ''b.png''\<rparr>]
   \<and> it_previewImage
        \<lparr>it_spot = example_spot, it_avgRating = JNum (Fin 4), it_previewImage = JStr ''b.png''\<rparr>
     = it_previewImage
        \<lparr>it_spot = example_spot, it_avgRating = JNull, it_previewImage = JStr ''b.png''\<rparr>"
  using previewImage_both_paths [OF example_getSpots _ example_getCurrent, of
      "\<lparr>it_spot = example_spot, it_avgRating = JNum (Fin 4), it_previewImage = JStr ''b.png''\<rparr>"
      "\<lparr>it_spot = example_spot, it_avgRating = JNull, it_previewImage = JStr ''b.png''\<rparr>"]
    example_getSpots example_getCurrent
  by simp

subsection \<open>The average rating\<close>

lemma mean_positive:
  assumes "xs \<noteq> []" and "\<forall>x \<in> set xs. 1 \<le> x"
  shows "mean xs \<noteq> 0"
proof -
  from assms(2) have "int (length xs) \<le> sum_list xs"
    by (induction xs) auto
  with assms(1) have "0 < sum_list xs" by (cases xs) auto
  with assms(1) show ?thesis by (simp add: mean_def)
qed



text \<open>
  C4. The detail handler computes the rating rounded to one decimal on line 137, and for
  the example store, whose spot has reviews of 3 and 5 stars, that local is the text
  \<^verbatim>\<open>4.0\<close>. The response does not carry it: its \<^verbatim>\<open>avgStarRating\<close> is the aggregate
  as the store returned it, the number 4.
\<close>

theorem detail_rating_not_rounded:
  "getSpotById example_store ''1''
     = Detail 200
         \<lparr>dt_spot = example_spot, dt_numReviews = 2, dt_avgStarRating = JNum (Fin 4),
          dt_SpotImages = db_images example_store,
          dt_Owner = \<lparr>us_id = 1, us_firstName = ''Ada'', us_lastName = ''Byron''\<rparr>\<rparr>
   \<and> rounded_avgStarRating (JNum (Fin 4)) = JStr ''4.0''"
  by code_simp

subsection \<open>Paging and filters of the list\<close>

text \<open>
  C2. With no \<^verbatim>\<open>page\<close> and no \<^verbatim>\<open>size\<close> the list is served with page 1 and size
  20; \<^verbatim>\<open>page=-1\<close> and \<^verbatim>\<open>size=25\<close> are answered 400 with an error under the key of
  the parameter. \<^verbatim>\<open>page=0\<close> and \<^verbatim>\<open>size=0\<close> are not: \<^verbatim>\<open>parseInt(page) || 1\<close>
  and \<^verbatim>\<open>parseInt(size) || 20\<close> take 0 for an absent value, so the request is served
  with page 1 and size 20.
\<close>

theorem page_zero_is_served:
  "getSpots st (no_query\<lparr>q_page := Some ''0''\<rparr>)
     = SpotPage 200 (map (list_item st) (take 20 (db_spots st))) (Fin 1) (Fin 20)
   \<and> getSpots st (no_query\<lparr>q_size := Some ''0''\<rparr>)
     = SpotPage 200 (map (list_item st) (take 20 (db_spots st))) (Fin 1) (Fin 20)
   \<and> getSpots st no_query
     = SpotPage 200 (map (list_item st) (take 20 (db_spots st))) (Fin 1) (Fin 20)
   \<and> getSpots st (no_query\<lparr>q_page := Some ''-1''\<rparr>)
     = Errors 400 ''Bad Request'' [(''page'', ''Page must be greater than or equal to 1'')]
   \<and> getSpots st (no_query\<lparr>q_size := Some ''25''\<rparr>)
     = Errors 400 ''Bad Request'' [(''size'', ''Size must be between 1 and 20'')]"
  by (simp add: getSpots_def validateQuery_def no_query_def parseInt_def toString_param_def
      parseInt_str_def is_ws_def digit_in_def digit_val_def digit_num_def num_or_def
      build_where_def coord_invalid_def price_invalid_def param_truthy_def filter_bound_def
      Spot_findAll_def where_matches_def lower_ok_def upper_ok_def bad_request_def)

text \<open>
  C9. A latitude filter that is not a number is answered 400 under its own key, through
  the \<^verbatim>\<open>isNaN\<close> test of its guard. The guard of a price filter has no such test:
  \<^verbatim>\<open>minPrice=abc\<close> passes validation, \<^verbatim>\<open>where.price\<close> gets the lower bound
  \<^verbatim>\<open>parseFloat("abc")\<close>, which is \<open>NaN\<close>, and whatever the store then returns, the
  response is not a 400 with an errors object.
\<close>

theorem nonnumeric_price_passes:
  "validateQuery (no_query\<lparr>q_minPrice := Some ''abc''\<rparr>)
     = Inr (Fin 1, Fin 20, no_filter\<lparr>w_price_gte := Some NaN\<rparr>)
   \<and> validateQuery (no_query\<lparr>q_minLat := Some ''abc''\<rparr>)
     = Inl (Errors 400 ''Bad Request'' [(''minLat'', ''Minimum latitude is invalid'')])
   \<and> (\<forall>st msg errs. getSpots st (no_query\<lparr>q_minPrice := Some ''abc''\<rparr>) \<noteq> Errors 400 msg errs)"
proof -
  have v: "validateQuery (no_query\<lparr>q_minPrice := Some ''abc''\<rparr>)
     = Inr (Fin 1, Fin 20, no_filter\<lparr>w_price_gte := Some NaN\<rparr>)"
    by code_simp
  have l: "validateQuery (no_query\<lparr>q_minLat := Some ''abc''\<rparr>)
     = Inl (Errors 400 ''Bad Request'' [(''minLat'', ''Minimum latitude is invalid'')])"
    by code_simp
  show ?thesis using l by (simp add: v getSpots_def)
qed

subsection \<open>Validation of a request body\<close>

lemma outside_lt_gt: "outside v bound \<Longrightarrow> js_lt v (Fin (- bound)) \<or> js_gt v (Fin bound)"
  by (cases "(v, bound)" rule: outside.cases) (auto simp: js_lt_def js_gt_def)

lemma too_long_length: "too_long v \<Longrightarrow> js_gt (js_length v) (Fin 50)"
  by (cases v rule: too_long.cases) (auto simp: js_gt_def)

lemma not_positive_le: "not_positive v \<Longrightarrow> js_le v (Fin 0)"
  by (cases v rule: not_positive.cases) (auto simp: js_le_def)

lemma in_single_if: "(y \<in> set (if c then [x] else [])) = (c \<and> y = x)"
  by (cases c) simp_all

lemma errors_address:
  "missing (bd_address b) \<Longrightarrow> (''address'', ''Street address is required'') \<in> set (validate_body b)"
  by (simp add: validate_body_def missing_def in_single_if split del: if_split)

lemma errors_city:
  "missing (bd_city b) \<Longrightarrow> (''city'', ''City is required'') \<in> set (validate_body b)"
  by (simp add: validate_body_def missing_def in_single_if split del: if_split)

lemma errors_state:
  "missing (bd_state b) \<Longrightarrow> (''state'', ''State is required'') \<in> set (validate_body b)"
  by (simp add: validate_body_def missing_def in_single_if split del: if_split)

lemma errors_country:
  "missing (bd_country b) \<Longrightarrow> (''country'', ''Country is required'') \<in> set (validate_body b)"
  by (simp add: validate_body_def missing_def in_single_if split del: if_split)

lemma errors_description:
  "missing (bd_description b) \<Longrightarrow>
   (''description'', ''Description is required'') \<in> set (validate_body b)"
  by (simp add: validate_body_def missing_def in_single_if split del: if_split)

lemma errors_lat:
  "outside (bd_lat b) 90 \<Longrightarrow>
   (''lat'', ''Latitude must be within -90 and 90'') \<in> set (validate_body b)"
  using outside_lt_gt [of "bd_lat b" 90]
  by (simp add: validate_body_def in_single_if split del: if_split)

lemma errors_lng:
  "outside (bd_lng b) 180 \<Longrightarrow>
   (''lng'', ''Longitude must be within -180 and 180'') \<in> set (validate_body b)"
  using outside_lt_gt [of "bd_lng b" 180]
  by (simp add: validate_body_def in_single_if split del: if_split)

lemma errors_name:
  "missing (bd_name b) \<or> too_long (bd_name b) \<Longrightarrow>
   (''name'', ''Name must be less than 50 characters'') \<in> set (validate_body b)"
  using too_long_length [of "bd_name b"]
  by (auto simp add: validate_body_def missing_def in_single_if split del: if_split)

lemma errors_price:
  "missing (bd_price b) \<or> not_positive (bd_price b) \<Longrightarrow>
   (''price'', ''Price per day must be a positive number'') \<in> set (validate_body b)"
  using not_positive_le [of "bd_price b"]
  by (auto simp add: validate_body_def missing_def in_single_if split del: if_split)

lemma invalid_errors:
  assumes "invalid_body b"
  shows "validate_body b \<noteq> []"
proof -
  from assms have "\<exists>e. e \<in> set (validate_body b)"
    unfolding invalid_body_def
    using errors_address [of b] errors_city [of b] errors_state [of b] errors_country [of b]
      errors_description [of b] errors_lat [of b] errors_lng [of b] errors_name [of b]
      errors_price [of b]
    by blast
  then show ?thesis by auto
qed

text \<open>
  C8. When a body is invalid in the sense of the specification, the \<^verbatim>\<open>errors\<close> object
  is not empty and has, for each invalid field, the entry under that field's key;
  \<^verbatim>\<open>POST /\<close> answers 400 with that object and leaves the store as it was; and
  \<^verbatim>\<open>PUT /:spotId\<close> leaves the store as it was in every case and answers 400 with that
  object when the spot exists and the requester owns it, which are the two checks the
  handler makes before it reads the body.
\<close>

theorem invalid_body_rejected:
  assumes "invalid_body b"
  shows "validate_body b \<noteq> []
       \<and> postSpot st uid now b = (st, Errors 400 ''Validation Error'' (validate_body b))
       \<and> fst (putSpot st uid now spotId b) = st
       \<and> (Spot_findByPk st spotId = Some s \<and> sp_ownerId s = uid
            \<longrightarrow> putSpot st uid now spotId b = (st, Errors 400 ''Validation Error'' (validate_body b)))
       \<and> (missing (bd_address b)
            \<longrightarrow> (''address'', ''Street address is required'') \<in> set (validate_body b))
       \<and> (missing (bd_city b) \<longrightarrow> (''city'', ''City is required'') \<in> set (validate_body b))
       \<and> (missing (bd_state b) \<longrightarrow> (''state'', ''State is required'') \<in> set (validate_body b))
       \<and> (missing (bd_country b)
            \<longrightarrow> (''country'', ''Country is required'') \<in> set (validate_body b))
       \<and> (missing (bd_description b)
            \<longrightarrow> (''description'', ''Description is required'') \<in> set (validate_body b))
       \<and> (outside (bd_lat b) 90
            \<longrightarrow> (''lat'', ''Latitude must be within -90 and 90'') \<in> set (validate_body b))
       \<and> (outside (bd_lng b) 180
            \<longrightarrow> (''lng'', ''Longitude must be within -180 and 180'') \<in> set (validate_body b))
       \<and> (missing (bd_name b) \<or> too_long (bd_name b)
            \<longrightarrow> (''name'', ''Name must be less than 50 characters'') \<in> set (validate_body b))
       \<and> (missing (bd_price b) \<or> not_positive (bd_price b)
            \<longrightarrow> (''price'', ''Price per day must be a positive number'') \<in> set (validate_body b))"
proof -
  from assms have ne: "validate_body b \<noteq> []" by (rule invalid_errors)
  have post: "postSpot st uid now b = (st, Errors 400 ''Validation Error'' (validate_body b))"
    using ne by (simp add: postSpot_def Let_def)
  have put1: "fst (putSpot st uid now spotId b) = st"
    using ne by (simp add: putSpot_def Let_def split: option.splits)
  have put2: "Spot_findByPk st spotId = Some s \<and> sp_ownerId s = uid
      \<longrightarrow> putSpot st uid now spotId b = (st, Errors 400 ''Validation Error'' (validate_body b))"
    using ne by (simp add: putSpot_def Let_def)
  show ?thesis
    using ne post put1 put2 errors_address [of b] errors_city [of b] errors_state [of b]
      errors_country [of b] errors_description [of b] errors_lat [of b] errors_lng [of b]
      errors_name [of b] errors_price [of b]
    by blast
qed

lemma invalid_example: "invalid_body invalid_example_body"
  by (simp add: invalid_body_def invalid_example_body_def example_body_def missing_def)

theorem invalid_body_rejected_witness:
  "invalid_body invalid_example_body
   \<and> postSpot example_store 1 7 invalid_example_body
       = (example_store,
          Errors 400 ''Validation Error''
            [(''lat'', ''Latitude must be within -90 and 90''),
             (''price'', ''Price per day must be a positive number'')])
   \<and> putSpot example_store 1 7 ''1'' invalid_example_body
       = (example_store,
          Errors 400 ''Validation Error''
            [(''lat'', ''Latitude must be within -90 and 90''),
             (''price'', ''Price per day must be a positive number'')])"
proof -
  have v: "validate_body invalid_example_body
      = [(''lat'', ''Latitude must be within -90 and 90''),
         (''price'', ''Price per day must be a positive number'')]"
    by (simp add: validate_body_def invalid_example_body_def example_body_def js_lt_def
        js_gt_def js_le_def)
  have own: "sp_ownerId example_spot = 1" by (simp add: example_spot_def)
  from invalid_body_rejected [OF invalid_example, of example_store 1 7 "''1''" example_spot]
    example_find own v invalid_example
  show ?thesis by simp
qed

subsection \<open>Booking conflicts\<close>

text \<open>
  C1. Two ranges \<open>[s1,e1)\<close> and \<open>[s2,e2)\<close> conflict exactly when \<open>s1 < e2\<close> and
  \<open>s2 < e1\<close>; a range that starts where another ends does not conflict with it; for
  ranges that are not empty, conflicting is having a point of time in common. The scan
  for a candidate range returns exactly the bookings of the same spot, other than the
  booking being updated, whose range conflicts with the candidate, so the booking being
  updated is never in it.
\<close>

theorem booking_conflict_rule:
  "conflicts s1 e1 s2 e2 = (s1 < e2 \<and> s2 < e1)
   \<and> \<not> conflicts s1 e1 e1 e2
   \<and> (s1 < e1 \<and> s2 < e2 \<longrightarrow> conflicts s1 e1 s2 e2 = (\<exists>d. s1 \<le> d \<and> d < e1 \<and> s2 \<le> d \<and> d < e2))
   \<and> (b \<in> set (conflict_scan bs spotId self s e)
        \<longleftrightarrow> b \<in> set bs \<and> bk_spotId b = spotId \<and> self \<noteq> Some (bk_id b)
            \<and> s < bk_endDate b \<and> bk_startDate b < e)
   \<and> (\<forall>x \<in> set (conflict_scan bs spotId (Some k) s e). bk_id x \<noteq> k)"
proof -
  have days: "s1 < e1 \<and> s2 < e2
      \<longrightarrow> conflicts s1 e1 s2 e2 = (\<exists>d. s1 \<le> d \<and> d < e1 \<and> s2 \<le> d \<and> d < e2)"
  proof (intro impI iffI)
    assume r: "s1 < e1 \<and> s2 < e2" and c: "conflicts s1 e1 s2 e2"
    then have "s1 \<le> max s1 s2 \<and> max s1 s2 < e1 \<and> s2 \<le> max s1 s2 \<and> max s1 s2 < e2"
      by (auto simp: conflicts_def)
    then show "\<exists>d. s1 \<le> d \<and> d < e1 \<and> s2 \<le> d \<and> d < e2" by blast
  next
    assume "\<exists>d. s1 \<le> d \<and> d < e1 \<and> s2 \<le> d \<and> d < e2"
    then show "conflicts s1 e1 s2 e2" by (auto simp: conflicts_def)
  qed
  show ?thesis
    using days by (auto simp: conflicts_def conflict_scan_def)
qed

theorem booking_conflict_rule_witness:
  "\<not> conflicts 1 5 5 10 \<and> conflicts 1 5 3 7
   \<and> conflict_scan (db_bookings example_store) 1 None 5 10 = []
   \<and> conflict_scan (db_bookings example_store) 1 None 3 7 = db_bookings example_store
   \<and> conflict_scan (db_bookings example_store) 1 (Some 1) 3 7 = []"
  using booking_conflict_rule [of 1 5 3 7 "hd (db_bookings example_store)"
      "db_bookings example_store" 1 "Some 1" 3 7 1]
  by (simp add: conflicts_def conflict_scan_def example_store_def)

end
